theory Spec2Isabelle
  imports
    Complex_Main
    "HOL-Library.List_Lexorder"
    "HOL-Library.Char_ord"
    "HOL-Library.Product_Lexorder"
begin

section \<open>Errors and HTTP responses\<close>

text \<open>
  Every \<^verbatim>\<open>throw\<close> of the modelled functions is a value of \<open>error\<close>:
  \<open>RxFetchError s\<close> is \<^verbatim>\<open>newRxFetchError(res)\<close> for a response of status \<open>s\<close>,
  \<open>EnsureNotFalsy\<close> is the exception of \<^verbatim>\<open>ensureNotFalsy\<close>, \<open>TypeError\<close> a
  method call on \<^verbatim>\<open>undefined\<close>, \<open>SyntaxError\<close> the exception of \<^verbatim>\<open>JSON.parse\<close>
  and \<open>RxError c\<close> is \<^verbatim>\<open>newRxError(c)\<close>. The helpers of utils that the modelled
  functions call are not among the sources and are modelled by what their callers rely
  on: \<^verbatim>\<open>ensureNotFalsy\<close> returns its argument or throws when it is falsy,
  \<^verbatim>\<open>lastOfArray\<close> returns the last element or \<^verbatim>\<open>undefined\<close>, and
  \<^verbatim>\<open>getFromMapOrCreate\<close> returns the value of a key, after creating and storing it
  when the key has none.
\<close>

datatype error =
    RxFetchError nat
  | EnsureNotFalsy
  | TypeError
  | SyntaxError
  | RxError string

datatype 'a response = Response (status: nat) (payload: 'a)

definition ok :: "'a response \<Rightarrow> bool" where
  "ok res = (200 \<le> status res \<and> status res \<le> 299)"

section \<open>Drive files, checkpoints and the listing request\<close>

text \<open>
  The metadata of one file as a listing returns it. Drive prints a time as an RFC 3339
  string with milliseconds in UTC, so that two such strings are equal exactly when the
  instants are: a time is modelled as its number of milliseconds, and \<^verbatim>\<open>===\<close> on the
  strings is equality of the numbers. A field the response leaves out is \<open>None\<close>.
\<close>

record DriveFileMetadata =
  file_id :: string
  file_name :: string
  file_modifiedTime :: "nat option"
  file_createdTime :: "nat option"

record GoogleDriveCheckpointType =
  modifiedTime :: nat
  docIdsWithSameModifiedTime :: "string list"

record DriveStructure =
  docsFolderId :: string
  signalingFolderId :: string

datatype order_by = ModifiedTimeAsc_NameAsc | CreatedTimeDesc | CreatedTimeAsc

text \<open>
  The query string of a \<^verbatim>\<open>files.list\<close> request, field by field: the folder of
  \<^verbatim>\<open>'<id>' in parents\<close>, the bound of \<^verbatim>\<open>modifiedTime >= '<t>'\<close> and of
  \<^verbatim>\<open>createdTime < '<t>'\<close> when the query has one, the mime type when the query names
  one, \<^verbatim>\<open>pageSize\<close> and \<^verbatim>\<open>orderBy\<close>. Every query of the modelled code has
  \<^verbatim>\<open>trashed = false\<close>.
\<close>

record files_list_params =
  q_parent :: string
  q_modifiedTime_ge :: "nat option"
  q_createdTime_lt :: "nat option"
  q_mimeType :: "string option"
  q_pageSize :: nat
  q_orderBy :: order_by

text \<open>
  What the code reaches over the network: the answer to the \<open>k\<close>-th request of a
  listing and to the \<open>k\<close>-th media request for a file id (\<open>k\<close> counts the requests
  that one call makes for it, from 0), the value of \<^verbatim>\<open>Math.random()\<close> drawn after
  the \<open>k\<close>-th request of a download, and \<^verbatim>\<open>JSON.parse\<close> on a response text:
  a syntax error, a falsy value (\<^verbatim>\<open>null\<close>, \<^verbatim>\<open>false\<close>, \<^verbatim>\<open>0\<close>, \<^verbatim>\<open>""\<close>) as
  \<open>Inr None\<close>, or a document.
\<close>

record 'd http_env =
  fetch_list :: "files_list_params \<Rightarrow> nat \<Rightarrow> DriveFileMetadata list option response"
  fetch_media :: "string \<Rightarrow> nat \<Rightarrow> string response"
  Math_random :: "string \<Rightarrow> nat \<Rightarrow> rat"
  JSON_parse :: "string \<Rightarrow> error + 'd option"

section \<open>document-handling: fetchDocumentContents\<close>

definition retry_statuses :: "nat list" where
  "retry_statuses = [429, 500, 502, 503, 504]"

text \<open>
  \<^verbatim>\<open>fetchOne(fileId, attempt)\<close>. The result is the list of the delays it slept, in
  order, and what it returned or threw; \<open>Inr None\<close> is a falsy result: \<^verbatim>\<open>undefined\<close>,
  returned for an empty response text, or a falsy value that the text parses to.
\<close>

function fetchOne :: "'d http_env \<Rightarrow> string \<Rightarrow> nat \<Rightarrow> nat list \<times> (error + 'd option)" where
  "fetchOne env fileId attempt =
     (let res = fetch_media env fileId attempt in
      if status res \<in> set retry_statuses \<and> attempt < 4 then
        (let backoffMs = 250 * 2 ^ attempt + nat \<lfloor>Math_random env fileId attempt * 200\<rfloor>;
             r = fetchOne env fileId (attempt + 1)
         in (backoffMs # fst r, snd r))
      else if \<not> ok res then ([], Inl (RxFetchError (status res)))
      else if payload res = [] then ([], Inr None)
      else (case JSON_parse env (payload res) of
              Inl e \<Rightarrow> ([], Inl e)
            | Inr doc \<Rightarrow> ([], Inr doc)))"
  by pat_completeness auto
termination
  by (relation "measure (\<lambda>(env, fileId, attempt). 4 - attempt)") auto

declare fetchOne.simps [simp del]












section \<open>downstream: fetchChangesFiles and fetchChanges\<close>

record fetch_files_result =
  ff_checkpoint :: "GoogleDriveCheckpointType option"
  ff_files :: "DriveFileMetadata list"


definition OVERFETCH_AMOUNT :: nat where
  "OVERFETCH_AMOUNT = 6"

text \<open>The predicate of the \<^verbatim>\<open>filter\<close> under \<^verbatim>\<open>if (checkpoint)\<close>.\<close>

definition notDelivered :: "GoogleDriveCheckpointType \<Rightarrow> DriveFileMetadata \<Rightarrow> bool" where
  "notDelivered checkpoint file =
     (\<not> (file_modifiedTime file = Some (modifiedTime checkpoint)
         \<and> file_name file \<in> set (docIdsWithSameModifiedTime checkpoint)))"

text \<open>The request of \<^verbatim>\<open>fetchChangesFiles\<close>: \<^verbatim>\<open>queryParts\<close> and \<^verbatim>\<open>params\<close>.\<close>

definition changesParams ::
  "DriveStructure \<Rightarrow> GoogleDriveCheckpointType option \<Rightarrow> nat \<Rightarrow> files_list_params" where
  "changesParams init checkpoint batchSize =
     \<lparr>q_parent = docsFolderId init,
      q_modifiedTime_ge = (case checkpoint of None \<Rightarrow> None | Some cp \<Rightarrow> Some (modifiedTime cp)),
      q_createdTime_lt = None,
      q_mimeType = None,
      q_pageSize = batchSize + OVERFETCH_AMOUNT,
      q_orderBy = ModifiedTimeAsc_NameAsc\<rparr>"

definition fetchChangesFiles ::
  "'d http_env \<Rightarrow> DriveStructure \<Rightarrow> GoogleDriveCheckpointType option \<Rightarrow> nat
     \<Rightarrow> error + fetch_files_result" where
  "fetchChangesFiles env init checkpoint batchSize =
     (let res = fetch_list env (changesParams init checkpoint batchSize) 0
      in if \<not> ok res then Inl (RxFetchError (status res))
         else (case payload res of
                 None \<Rightarrow> Inl TypeError
               | Some data_files \<Rightarrow>
                   (let files = (case checkpoint of
                                   None \<Rightarrow> data_files
                                 | Some cp \<Rightarrow> filter (notDelivered cp) data_files);
                        files = take batchSize files
                    in case files of
                         [] \<Rightarrow> Inr \<lparr>ff_checkpoint = checkpoint, ff_files = files\<rparr>
                       | first # rest \<Rightarrow>
                           (case file_modifiedTime (last files) of
                              None \<Rightarrow> Inl EnsureNotFalsy
                            | Some lastModified \<Rightarrow>
                                (let ids = map file_name
                                             (filter (\<lambda>file. file_modifiedTime file = Some lastModified) files);
                                     ids = (case checkpoint of
                                              None \<Rightarrow> ids
                                            | Some cp \<Rightarrow>
                                                if file_modifiedTime first = Some (modifiedTime cp)
                                                then ids @ docIdsWithSameModifiedTime cp
                                                else ids)
                                 in Inr \<lparr>ff_checkpoint =
                                           Some \<lparr>modifiedTime = lastModified,
                                                 docIdsWithSameModifiedTime = ids\<rparr>,
                                         ff_files = files\<rparr>)))))"


section \<open>The Drive service\<close>

text \<open>
  The service is not part of the program. Its model here is what the requests of the
  program ask for: a listing returns the metadata of the files of the folder that are
  not trashed and satisfy the bounds of the query, in the order of the query, cut to
  the page size; a media request returns the text of the file.
\<close>

record drive_file =
  df_id :: string
  df_name :: string
  df_parent :: string
  df_mimeType :: string
  df_trashed :: bool
  df_modifiedTime :: nat
  df_createdTime :: nat
  df_text :: string

definition metadataOf :: "drive_file \<Rightarrow> DriveFileMetadata" where
  "metadataOf f =
     \<lparr>file_id = df_id f, file_name = df_name f,
      file_modifiedTime = Some (df_modifiedTime f),
      file_createdTime = Some (df_createdTime f)\<rparr>"

definition matchesQuery :: "files_list_params \<Rightarrow> drive_file \<Rightarrow> bool" where
  "matchesQuery params f =
     (df_parent f = q_parent params \<and> \<not> df_trashed f
      \<and> (case q_modifiedTime_ge params of None \<Rightarrow> True | Some t \<Rightarrow> t \<le> df_modifiedTime f)
      \<and> (case q_createdTime_lt params of None \<Rightarrow> True | Some t \<Rightarrow> df_createdTime f < t)
      \<and> (case q_mimeType params of None \<Rightarrow> True | Some m \<Rightarrow> df_mimeType f = m))"

definition orderFiles :: "order_by \<Rightarrow> drive_file list \<Rightarrow> drive_file list" where
  "orderFiles ob fs =
     (case ob of
        ModifiedTimeAsc_NameAsc \<Rightarrow> sort_key (\<lambda>f. (df_modifiedTime f, df_name f)) fs
      | CreatedTimeAsc \<Rightarrow> sort_key df_createdTime fs
      | CreatedTimeDesc \<Rightarrow> rev (sort_key df_createdTime fs))"

definition drive_files_list ::
  "drive_file list \<Rightarrow> files_list_params \<Rightarrow> DriveFileMetadata list option response" where
  "drive_files_list drive params =
     Response 200
       (Some (map metadataOf
                (take (q_pageSize params)
                   (orderFiles (q_orderBy params) (filter (matchesQuery params) drive)))))"

definition drive_get_media :: "drive_file list \<Rightarrow> string \<Rightarrow> string response" where
  "drive_get_media drive fileId =
     (case filter (\<lambda>f. df_id f = fileId) drive of
        [] \<Rightarrow> Response 404 []
      | f # _ \<Rightarrow> Response 200 (df_text f))"

text \<open>A service that answers every request at once, documents being their texts.\<close>

definition drive_env :: "drive_file list \<Rightarrow> string http_env" where
  "drive_env drive =
     \<lparr>fetch_list = (\<lambda>params attempt. drive_files_list drive params),
      fetch_media = (\<lambda>fileId attempt. drive_get_media drive fileId),
      Math_random = (\<lambda>fileId attempt. 0),
      JSON_parse = (\<lambda>text. Inr (Some text))\<rparr>"


section \<open>signaling: readMessages\<close>

datatype message_data = IExist | SignalData string

text \<open>\<^verbatim>\<open>message.data.i\<close> as a condition: only the beacon \<^verbatim>\<open>{i: 'exist'}\<close> has the field.\<close>

fun data_i :: "message_data \<Rightarrow> bool" where
  "data_i IExist = True"
| "data_i (SignalData signal) = False"

record message =
  senderId :: string
  data :: message_data

text \<open>
  The network as \<^verbatim>\<open>readMessages\<close> reaches it: the answer to its listing request and
  \<^verbatim>\<open>readJsonFileContent\<close> of google-drive-helper, which returns the content of a
  file or throws; that helper is taken as given.
\<close>

record signaling_env =
  sig_fetch_list :: "files_list_params \<Rightarrow> DriveFileMetadata list option response"
  readJsonFileContent :: "string \<Rightarrow> error + message_data"

text \<open>\<^verbatim>\<open>String.prototype.split\<close> with a separator of one character.\<close>

fun split :: "char \<Rightarrow> string \<Rightarrow> string list" where
  "split sep [] = [[]]"
| "split sep (c # cs) =
     (if c = sep then [] # split sep cs
      else (case split sep cs of
              [] \<Rightarrow> [[c]]
            | part # parts \<Rightarrow> (c # part) # parts))"

definition lastOfArray :: "'a list \<Rightarrow> 'a option" where
  "lastOfArray ar = (if ar = [] then None else Some (last ar))"

text \<open>\<^verbatim>\<open>ensureNotFalsy\<close> on a string: the empty string is falsy.\<close>

definition messageIdByFilename :: "string \<Rightarrow> error + string" where
  "messageIdByFilename name =
     (case split CHR ''.'' name of
        [] \<Rightarrow> Inl TypeError
      | fileName # _ \<Rightarrow>
          (case lastOfArray (split CHR ''_'' fileName) of
             None \<Rightarrow> Inl EnsureNotFalsy
           | Some messageId \<Rightarrow> if messageId = [] then Inl EnsureNotFalsy else Inr messageId))"

definition signalingParams :: "DriveStructure \<Rightarrow> files_list_params" where
  "signalingParams init =
     \<lparr>q_parent = signalingFolderId init,
      q_modifiedTime_ge = None,
      q_createdTime_lt = None,
      q_mimeType = None,
      q_pageSize = 1000,
      q_orderBy = CreatedTimeDesc\<rparr>"

text \<open>\<^verbatim>\<open>folderData.filter(...)\<close>, whose predicate can throw.\<close>

fun filterUnseen :: "string set \<Rightarrow> DriveFileMetadata list \<Rightarrow> error + DriveFileMetadata list" where
  "filterUnseen processedMessageIds [] = Inr []"
| "filterUnseen processedMessageIds (file # files) =
     (case messageIdByFilename (file_name file) of
        Inl e \<Rightarrow> Inl e
      | Inr messageId \<Rightarrow>
          (case filterUnseen processedMessageIds files of
             Inl e \<Rightarrow> Inl e
           | Inr rest \<Rightarrow>
               Inr (if messageId \<notin> processedMessageIds then file # rest else rest)))"

text \<open>
  \<^verbatim>\<open>Promise.all\<close>: the values in the order of the promises when all are fulfilled,
  a rejection when one rejects. Which rejection wins when several reject is a matter
  of timing; the model takes the first in the order of the list.
\<close>

fun promise_all :: "(error + 'a) list \<Rightarrow> error + 'a list" where
  "promise_all [] = Inr []"
| "promise_all (p # ps) =
     (case p of
        Inl e \<Rightarrow> Inl e
      | Inr v \<Rightarrow> (case promise_all ps of Inl e \<Rightarrow> Inl e | Inr vs \<Rightarrow> Inr (v # vs)))"

text \<open>The function mapped over \<^verbatim>\<open>useFiles\<close>.\<close>

definition readMessageFile :: "signaling_env \<Rightarrow> DriveFileMetadata \<Rightarrow> error + message" where
  "readMessageFile env file =
     (case readJsonFileContent env (file_id file) of
        Inl e \<Rightarrow> Inl e
      | Inr content \<Rightarrow>
          Inr \<lparr>senderId = (case split CHR ''_'' (file_name file) of [] \<Rightarrow> [] | s # _ \<Rightarrow> s),
               data = content\<rparr>)"

text \<open>The \<^verbatim>\<open>forEach\<close> that adds the message ids; the set is returned as it is left.\<close>

fun markProcessed :: "DriveFileMetadata list \<Rightarrow> string set \<Rightarrow> error option \<times> string set" where
  "markProcessed [] processedMessageIds = (None, processedMessageIds)"
| "markProcessed (file # files) processedMessageIds =
     (case messageIdByFilename (file_name file) of
        Inl e \<Rightarrow> (Some e, processedMessageIds)
      | Inr messageId \<Rightarrow> markProcessed files (insert messageId processedMessageIds))"

text \<open>
  \<^verbatim>\<open>readMessages\<close>. The set \<^verbatim>\<open>processedMessageIds\<close> is mutated in place, so the
  model returns it beside the result, also when the function throws.
\<close>

definition readMessages ::
  "signaling_env \<Rightarrow> DriveStructure \<Rightarrow> string set \<Rightarrow> (error + message list) \<times> string set" where
  "readMessages env init processedMessageIds =
     (let listResponse = sig_fetch_list env (signalingParams init) in
      if \<not> ok listResponse then (Inl (RxFetchError (status listResponse)), processedMessageIds)
      else
        (let folderData = rev (case payload listResponse of None \<Rightarrow> [] | Some fs \<Rightarrow> fs) in
         case filterUnseen processedMessageIds folderData of
           Inl e \<Rightarrow> (Inl e, processedMessageIds)
         | Inr useFiles \<Rightarrow>
             (case promise_all (map (readMessageFile env) useFiles) of
                Inl e \<Rightarrow> (Inl e, processedMessageIds)
              | Inr filesContent \<Rightarrow>
                  (case markProcessed useFiles processedMessageIds of
                     (Some e, ids) \<Rightarrow> (Inl e, ids)
                   | (None, ids) \<Rightarrow> (Inr filesContent, ids)))))"

section \<open>signaling: SignalingState\<close>



datatype SIGNAL = RESYNC | NEW_PEER

text \<open>
  A peer of simple-peer, as far as the state drives it: how it was created, the
  payloads given to \<^verbatim>\<open>peer.signal\<close>, the pings given to \<^verbatim>\<open>peer.send\<close> and whether
  \<^verbatim>\<open>peer.destroy\<close> was called.
\<close>

record peer =
  initiator :: bool
  signalled :: "message_data list"
  sent :: "SIGNAL list"
  destroyed :: bool

text \<open>
  The fields of the class. \<open>peerBySenderId\<close> is the \<^verbatim>\<open>Map\<close> in insertion order.
  \<open>resync_next\<close> counts the calls of \<^verbatim>\<open>_resync$.next()\<close>, \<open>resync_later\<close> those
  that \<^verbatim>\<open>promiseWait().then\<close> has queued, \<open>uploads\<close> are the files handed to
  \<^verbatim>\<open>insertMultipartFile\<close>, and \<open>skipBackoffTime\<close> tells whether the field is set.
\<close>

record SignalingState =
  sessionId :: string
  processedMessageIds :: "string set"
  peerBySenderId :: "(string \<times> peer) list"
  backoffStepId :: nat
  skipBackoffTime :: bool
  closed :: bool
  resync_next :: nat
  resync_later :: nat
  resync_complete :: bool
  uploads :: "(string \<times> message_data) list"

text \<open>
  The event targets of a browser. A listener is identified by the session id of the
  state whose \<^verbatim>\<open>resetReaderFn\<close> it is. Where \<^verbatim>\<open>typeof window\<close> is
  \<^verbatim>\<open>'undefined'\<close> there is no browser.
\<close>

record browser =
  window_listeners :: "(string \<times> string) list"
  document_listeners :: "(string \<times> string) list"

definition addEventListener :: "(string \<times> string) list \<Rightarrow> string \<Rightarrow> string \<Rightarrow> (string \<times> string) list" where
  "addEventListener listeners type listener =
     (if (type, listener) \<in> set listeners then listeners else listeners @ [(type, listener)])"

definition removeEventListener :: "(string \<times> string) list \<Rightarrow> string \<Rightarrow> string \<Rightarrow> (string \<times> string) list" where
  "removeEventListener listeners type listener =
     filter (\<lambda>l. l \<noteq> (type, listener)) listeners"

text \<open>
  \<^verbatim>\<open>sendMessage\<close>, with the token of \<^verbatim>\<open>randomToken(12)\<close> and the printed value of
  \<^verbatim>\<open>now()\<close> as arguments.
\<close>

definition sendMessage :: "SignalingState \<Rightarrow> string \<Rightarrow> string \<Rightarrow> message_data \<Rightarrow> SignalingState" where
  "sendMessage st messageId nowString content =
     (let fileName = sessionId st @ ''_'' @ nowString @ ''_'' @ messageId @ ''.json'' in
      st\<lparr>processedMessageIds := insert messageId (processedMessageIds st),
         uploads := uploads st @ [(fileName, content)]\<rparr>)"

definition pingPeers :: "SignalingState \<Rightarrow> SIGNAL \<Rightarrow> SignalingState" where
  "pingPeers st message =
     st\<lparr>peerBySenderId := map (\<lambda>(sender, p). (sender, p\<lparr>sent := sent p @ [message]\<rparr>))
                             (peerBySenderId st)\<rparr>"

text \<open>The body of \<^verbatim>\<open>messages.forEach\<close> in \<^verbatim>\<open>_processNewMessages\<close>.\<close>

definition handleMessage :: "SignalingState \<Rightarrow> message \<Rightarrow> SignalingState" where
  "handleMessage st message =
     (if senderId message = sessionId st then st
      else
        (let st1 = (case map_of (peerBySenderId st) (senderId message) of
                      Some p \<Rightarrow> st
                    | None \<Rightarrow>
                        (let pinged = pingPeers st NEW_PEER in
                         pinged\<lparr>peerBySenderId :=
                                  peerBySenderId pinged
                                  @ [(senderId message,
                                      \<lparr>initiator = (senderId message > sessionId st),
                                       signalled = [], sent = [], destroyed = False\<rparr>)],
                                resync_later := resync_later pinged + 1\<rparr>))
         in if \<not> data_i (data message)
            then st1\<lparr>peerBySenderId :=
                       map (\<lambda>(sender, p).
                              if sender = senderId message
                              then (sender, p\<lparr>signalled := signalled p @ [data message]\<rparr>)
                              else (sender, p))
                           (peerBySenderId st1)\<rparr>
            else st1))"

text \<open>\<^verbatim>\<open>_processNewMessages\<close>: the error it throws, if any, and the state it leaves.\<close>

definition private_processNewMessages ::
  "signaling_env \<Rightarrow> DriveStructure \<Rightarrow> SignalingState \<Rightarrow> error option \<times> SignalingState" where
  "private_processNewMessages env init st =
     (case readMessages env init (processedMessageIds st) of
        (Inl e, ids) \<Rightarrow> (Some e, st\<lparr>processedMessageIds := ids\<rparr>)
      | (Inr messages, ids) \<Rightarrow>
          (let st1 = st\<lparr>processedMessageIds := ids\<rparr>;
               st2 = (if length messages > 0 then st1\<lparr>resync_next := resync_next st1 + 1\<rparr> else st1)
           in (None, foldl handleMessage st2 messages)))"

text \<open>\<^verbatim>\<open>processNewMessages\<close> runs it in the queue and swallows its error.\<close>

definition processNewMessages :: "signaling_env \<Rightarrow> DriveStructure \<Rightarrow> SignalingState \<Rightarrow> SignalingState" where
  "processNewMessages env init st = snd (private_processNewMessages env init st)"






definition DEFAULT_MAX_AGE_MS :: nat where
  "DEFAULT_MAX_AGE_MS = 24 * 60 * 60 * 1000"

text \<open>
  \<^verbatim>\<open>cleanupOldSignalingMessages\<close>. Its first statement is \<^verbatim>\<open>return 2;\<close>: nothing
  after it runs, so no request is made and the Drive is left as it is. The arguments
  are the Drive, the folder, \<^verbatim>\<open>maxAgeMs\<close> and the value of \<^verbatim>\<open>Date.now()\<close>.
\<close>

definition cleanupOldSignalingMessages ::
  "drive_file list \<Rightarrow> string \<Rightarrow> nat \<Rightarrow> nat \<Rightarrow> nat \<times> drive_file list" where
  "cleanupOldSignalingMessages drive folderId maxAgeMs dateNow = (2, drive)"

text \<open>
  The constructor up to its first \<^verbatim>\<open>await\<close>, with the tokens of \<^verbatim>\<open>randomToken(12)\<close>
  for the session and for the beacon, and the printed \<^verbatim>\<open>now()\<close>. The polls that it
  queues are the turns of \<open>pollLoop\<close>.
\<close>

definition new_SignalingState ::
  "string \<Rightarrow> string \<Rightarrow> string \<Rightarrow> browser option \<Rightarrow> SignalingState \<times> browser option" where
  "new_SignalingState session messageId nowString win =
     (let st = \<lparr>sessionId = session, processedMessageIds = {}, peerBySenderId = [],
                backoffStepId = 0, skipBackoffTime = False, closed = False,
                resync_next = 0, resync_later = 0, resync_complete = False, uploads = []\<rparr>
      in (sendMessage st messageId nowString IExist,
          case win of
            None \<Rightarrow> None
          | Some b \<Rightarrow>
              Some (b\<lparr>window_listeners := addEventListener (window_listeners b) ''online'' session,
                      document_listeners :=
                        addEventListener (document_listeners b) ''visibilitychange'' session\<rparr>)))"

text \<open>\<^verbatim>\<open>close()\<close>. Both \<^verbatim>\<open>removeEventListener\<close> calls are made on \<^verbatim>\<open>window\<close>.\<close>

definition close :: "SignalingState \<Rightarrow> browser option \<Rightarrow> SignalingState \<times> browser option" where
  "close st win =
     (st\<lparr>closed := True,
         peerBySenderId := map (\<lambda>(sender, p). (sender, p\<lparr>destroyed := True\<rparr>)) (peerBySenderId st),
         resync_complete := True\<rparr>,
      case win of
        None \<Rightarrow> None
      | Some b \<Rightarrow>
          Some (b\<lparr>window_listeners :=
                    removeEventListener
                      (removeEventListener (window_listeners b) ''online'' (sessionId st))
                      ''visibilitychange'' (sessionId st)\<rparr>))"

section \<open>index: replicateGoogleDrive\<close>

record ReplicationPullOptions =
  pull_batchSize :: "nat option"

record ReplicationPushOptions =
  push_batchSize :: "nat option"

record SyncOptionsGoogleDrive =
  opt_live :: "bool option"
  opt_pull :: "ReplicationPullOptions option"
  opt_push :: "ReplicationPushOptions option"
  opt_waitForLeadership :: "bool option"

text \<open>
  The functions that the fields \<^verbatim>\<open>start\<close> and \<^verbatim>\<open>cancel\<close> of the replication state
  hold: the methods of the class (\<^verbatim>\<open>startBefore\<close>, \<^verbatim>\<open>cancelBefore\<close>), or the closures
  that \<^verbatim>\<open>replicateGoogleDrive\<close> and its \<^verbatim>\<open>start\<close> assign. The closure of \<^verbatim>\<open>cancel\<close>
  holds the subscription \<^verbatim>\<open>sub\<close> of the \<^verbatim>\<open>start\<close> that made it.
\<close>

datatype start_function = StartBefore | StartWithSignaling
datatype cancel_function = CancelBefore | CancelWithSignaling nat

text \<open>What the replication state does that others see, in order.\<close>

datatype call =
    Call_new_SignalingState
  | Call_subscribe nat
  | Call_startBefore
  | Call_unsubscribe nat
  | Call_close
  | Call_cancelBefore
  | Call_reSync

text \<open>
  The replication state: \<open>subscriptions\<close> are the subscriptions to \<^verbatim>\<open>resync$\<close> that
  are open, each named by the number of subscriptions made before it.
\<close>

record RxGoogleDriveReplicationState =
  live :: bool
  pull :: "ReplicationPullOptions option"
  push :: "ReplicationPushOptions option"
  signalingState :: "SignalingState option"
  start_field :: start_function
  cancel_field :: cancel_function
  subscriptions :: "nat list"
  subscribed_count :: nat
  calls :: "call list"

text \<open>
  \<^verbatim>\<open>replicateGoogleDrive\<close>, as far as the replication state it returns. The host's
  \<^verbatim>\<open>startReplicationOnLeaderShip\<close> calls \<^verbatim>\<open>start\<close> later; here \<open>start\<close> and
  \<open>cancel\<close> are called by whoever holds the state.
\<close>

definition replicateGoogleDrive :: "SyncOptionsGoogleDrive \<Rightarrow> RxGoogleDriveReplicationState" where
  "replicateGoogleDrive options =
     (let options_live = (case opt_live options of None \<Rightarrow> True | Some l \<Rightarrow> l) in
      \<lparr>live = options_live,
       pull = opt_pull options,
       push = opt_push options,
       signalingState = None,
       start_field = (if options_live \<and> opt_pull options \<noteq> None
                      then StartWithSignaling else StartBefore),
       cancel_field = CancelBefore,
       subscriptions = [],
       subscribed_count = 0,
       calls = []\<rparr>)"

text \<open>
  \<^verbatim>\<open>replicationState.start()\<close>, with the tokens and the time that the constructor of
  the signaling state draws.
\<close>

definition start ::
  "string \<Rightarrow> string \<Rightarrow> string \<Rightarrow> RxGoogleDriveReplicationState \<times> browser option
     \<Rightarrow> RxGoogleDriveReplicationState \<times> browser option" where
  "start session messageId nowString world =
     (let rs = fst world; win = snd world in
      case start_field rs of
        StartBefore \<Rightarrow> (rs\<lparr>calls := calls rs @ [Call_startBefore]\<rparr>, win)
      | StartWithSignaling \<Rightarrow>
          (let created = new_SignalingState session messageId nowString win;
               sub = subscribed_count rs
           in (rs\<lparr>signalingState := Some (fst created),
                  subscriptions := subscriptions rs @ [sub],
                  subscribed_count := sub + 1,
                  cancel_field := CancelWithSignaling sub,
                  calls := calls rs @ [Call_new_SignalingState, Call_subscribe sub, Call_startBefore]\<rparr>,
               snd created)))"

text \<open>\<^verbatim>\<open>replicationState.cancel()\<close>.\<close>

definition cancel ::
  "RxGoogleDriveReplicationState \<times> browser option \<Rightarrow> RxGoogleDriveReplicationState \<times> browser option" where
  "cancel world =
     (let rs = fst world; win = snd world in
      case cancel_field rs of
        CancelBefore \<Rightarrow> (rs\<lparr>calls := calls rs @ [Call_cancelBefore]\<rparr>, win)
      | CancelWithSignaling sub \<Rightarrow>
          (let rs1 = rs\<lparr>subscriptions := filter (\<lambda>s. s \<noteq> sub) (subscriptions rs),
                        calls := calls rs @ [Call_unsubscribe sub]\<rparr>
           in case signalingState rs1 of
                None \<Rightarrow> (rs1\<lparr>calls := calls rs1 @ [Call_cancelBefore]\<rparr>, win)
              | Some st \<Rightarrow>
                  (let closing = close st win in
                   (rs1\<lparr>signalingState := Some (fst closing),
                        calls := calls rs1 @ [Call_close, Call_cancelBefore]\<rparr>,
                    snd closing))))"

text \<open>The signaling state emits on \<^verbatim>\<open>resync$\<close>: every open subscription calls \<^verbatim>\<open>reSync()\<close>.\<close>

definition emitResync :: "RxGoogleDriveReplicationState \<Rightarrow> RxGoogleDriveReplicationState" where
  "emitResync rs = rs\<lparr>calls := calls rs @ map (\<lambda>sub. Call_reSync) (subscriptions rs)\<rparr>"

section \<open>upstream: handleUpstreamBatch\<close>

text \<open>
  A row of a push batch and the shared folder as the upstream path sees it: the stored
  document of each primary key under \<^verbatim>\<open>docs/\<close>, and the rows staged in the WAL file
  (\<open>None\<close> when the WAL is empty).
\<close>

record 'd RxReplicationWriteToMasterRow =
  newDocumentState :: 'd
  assumedMasterState :: "'d option"

record 'd upstream_drive =
  docs :: "string \<rightharpoonup> 'd"
  wal :: "'d RxReplicationWriteToMasterRow list option"

text \<open>
  What neither the spec nor the test suite fixes of the conflict detection, taken as
  given: whether a row without \<^verbatim>\<open>assumedMasterState\<close> is a conflict when the stored
  document equals the state that the row pushes, and the error thrown for a row with an
  \<^verbatim>\<open>assumedMasterState\<close> whose document file does not exist.
\<close>

record upstream_given =
  sameStateConflicts :: bool
  missingMasterError :: error

text \<open>
  Modelled from the spec: the conflict detection of upstream.ts for one row; the file
  is not among the sources, the test suite calls its functions. \<open>Inr None\<close> is no
  conflict, \<open>Inr (Some m)\<close> a conflict with the stored document \<open>m\<close>. The spec
  (4.4, step 1): for a row with an \<^verbatim>\<open>assumedMasterState\<close> the content of the current
  document file is fetched, which fails when there is no such file, and the row is a
  conflict when the stored state differs from the assumed one; a pure insert, a row
  without \<^verbatim>\<open>assumedMasterState\<close> for a key with no document file, cannot conflict
  (the test \<^verbatim>\<open>should not have a conflict on inserts\<close>). For a row without
  \<^verbatim>\<open>assumedMasterState\<close> whose document file exists, the scenario of the spec
  (8, scenario 5), which the test suite asserts with \<^verbatim>\<open>must have 3 conflicts\<close>, has a
  conflict when the stored document differs from the pushed state.
\<close>

definition detectConflict ::
  "upstream_given \<Rightarrow> ('d \<Rightarrow> string) \<Rightarrow> (string \<rightharpoonup> 'd) \<Rightarrow> 'd RxReplicationWriteToMasterRow
     \<Rightarrow> error + 'd option" where
  "detectConflict given primaryPath stored row =
     (case assumedMasterState row of
        Some assumed \<Rightarrow>
          (case stored (primaryPath (newDocumentState row)) of
             None \<Rightarrow> Inl (missingMasterError given)
           | Some masterState \<Rightarrow>
               Inr (if masterState \<noteq> assumed then Some masterState else None))
      | None \<Rightarrow>
          (case stored (primaryPath (newDocumentState row)) of
             None \<Rightarrow> Inr None
           | Some masterState \<Rightarrow>
               Inr (if masterState \<noteq> newDocumentState row \<or> sameStateConflicts given
                    then Some masterState else None)))"

text \<open>
  Modelled from the spec: \<^verbatim>\<open>fetchConflicts\<close> of upstream.ts, which the test suite
  calls for its \<^verbatim>\<open>conflicts\<close> (4.4, steps 1 and 2): the rows are examined in their
  order; the conflicts are collected, the other rows are those to stage. The collected
  conflicts are the stored documents: the push handler of index.ts returns them to the
  replication, which resolves a conflict against the master state.
\<close>

fun fetchConflicts ::
  "upstream_given \<Rightarrow> ('d \<Rightarrow> string) \<Rightarrow> (string \<rightharpoonup> 'd) \<Rightarrow> 'd RxReplicationWriteToMasterRow list
     \<Rightarrow> error + 'd list \<times> 'd RxReplicationWriteToMasterRow list" where
  "fetchConflicts given primaryPath stored [] = Inr ([], [])"
| "fetchConflicts given primaryPath stored (row # rows) =
     (case detectConflict given primaryPath stored row of
        Inl e \<Rightarrow> Inl e
      | Inr found \<Rightarrow>
          (case fetchConflicts given primaryPath stored rows of
             Inl e \<Rightarrow> Inl e
           | Inr rest \<Rightarrow>
               (case found of
                  None \<Rightarrow> Inr (fst rest, row # snd rest)
                | Some masterState \<Rightarrow> Inr (masterState # fst rest, snd rest))))"

text \<open>
  Modelled from the spec: \<^verbatim>\<open>writeToWal\<close> of upstream.ts (4.4, step 3): the rows are
  written to the WAL file, which fails when the WAL is not empty (error \<^verbatim>\<open>GDR19\<close> in
  the test suite).
\<close>

definition writeToWal ::
  "'d upstream_drive \<Rightarrow> 'd RxReplicationWriteToMasterRow list \<Rightarrow> error + 'd upstream_drive" where
  "writeToWal drive rows =
     (case wal drive of
        Some staged \<Rightarrow> Inl (RxError ''GDR19'')
      | None \<Rightarrow> Inr (drive\<lparr>wal := Some rows\<rparr>))"

text \<open>
  Modelled from the spec: \<^verbatim>\<open>handleUpstreamBatch\<close> of upstream.ts (4.4, steps 1 to 4):
  conflicts are detected, conflicting rows are not staged, the other rows are written
  to the WAL, and the conflict list is returned.
\<close>

definition handleUpstreamBatch ::
  "upstream_given \<Rightarrow> ('d \<Rightarrow> string) \<Rightarrow> 'd upstream_drive \<Rightarrow> 'd RxReplicationWriteToMasterRow list
     \<Rightarrow> error + 'd list \<times> 'd upstream_drive" where
  "handleUpstreamBatch given primaryPath drive rows =
     (case fetchConflicts given primaryPath (docs drive) rows of
        Inl e \<Rightarrow> Inl e
      | Inr found \<Rightarrow>
          (case writeToWal drive (snd found) of
             Inl e \<Rightarrow> Inl e
           | Inr staged \<Rightarrow> Inr (fst found, staged)))"

text \<open>
  A pure insert: a row without \<^verbatim>\<open>assumedMasterState\<close> for a primary key that has no
  document file.
\<close>

definition pureInsert ::
  "('d \<Rightarrow> string) \<Rightarrow> (string \<rightharpoonup> 'd) \<Rightarrow> 'd RxReplicationWriteToMasterRow \<Rightarrow> bool" where
  "pureInsert primaryPath stored row =
     (assumedMasterState row = None \<and> stored (primaryPath (newDocumentState row)) = None)"

text \<open>
  Modelled from the spec: \<^verbatim>\<open>processWalFile\<close> of upstream.ts (4.4): every staged row
  is applied to the document file of its primary key, updated or inserted, in the order
  of the rows, and the WAL is blanked.
\<close>

definition processWalFile :: "('d \<Rightarrow> string) \<Rightarrow> 'd upstream_drive \<Rightarrow> 'd upstream_drive" where
  "processWalFile primaryPath drive =
     (case wal drive of
        None \<Rightarrow> drive
      | Some rows \<Rightarrow>
          \<lparr>docs = foldl (\<lambda>stored row.
                           stored(primaryPath (newDocumentState row) \<mapsto> newDocumentState row))
                        (docs drive) rows,
           wal = None\<rparr>)"

section \<open>Example inputs\<close>

definition exampleInit :: DriveStructure where
  "exampleInit = \<lparr>docsFolderId = ''docs'', signalingFolderId = ''signaling''\<rparr>"

definition docFile :: "string \<Rightarrow> string \<Rightarrow> nat \<Rightarrow> string \<Rightarrow> drive_file" where
  "docFile fileId name t txt =
     \<lparr>df_id = fileId, df_name = name, df_parent = ''docs'', df_mimeType = ''application/json'',
      df_trashed = False, df_modifiedTime = t, df_createdTime = t, df_text = txt\<rparr>"

text \<open>Four documents, two of them modified at the same time.\<close>

definition exampleDrive :: "drive_file list" where
  "exampleDrive =
     [docFile ''f2'' ''doc-2.json'' 20 ''two'',
      docFile ''f0'' ''doc-0.json'' 10 ''zero'',
      docFile ''f1'' ''doc-1.json'' 20 ''one'',
      docFile ''f3'' ''doc-3.json'' 30 ''three'']"

definition exampleCheckpoint :: GoogleDriveCheckpointType where
  "exampleCheckpoint = \<lparr>modifiedTime = 20, docIdsWithSameModifiedTime = [''doc-1.json'']\<rparr>"

definition fileMeta :: "string \<Rightarrow> string \<Rightarrow> nat \<Rightarrow> DriveFileMetadata" where
  "fileMeta fileId name t =
     \<lparr>file_id = fileId, file_name = name, file_modifiedTime = Some t, file_createdTime = Some t\<rparr>"


text \<open>
  A service whose first answer to every request has the status \<open>s\<close> and an empty
  body, and whose later answers are 200 with a body.
\<close>

definition flakyEnv :: "nat \<Rightarrow> string http_env" where
  "flakyEnv s =
     \<lparr>fetch_list = (\<lambda>params attempt.
                      if attempt = 0 then Response s None else Response 200 (Some [])),
      fetch_media = (\<lambda>fileId attempt.
                      if attempt = 0 then Response s [] else Response 200 ''doc''),
      Math_random = (\<lambda>fileId attempt. 1 / 2),
      JSON_parse = (\<lambda>text. Inr (Some text))\<rparr>"

text \<open>A service that answers every media request with 503.\<close>

definition unavailableEnv :: "string http_env" where
  "unavailableEnv =
     \<lparr>fetch_list = (\<lambda>params attempt. Response 503 None),
      fetch_media = (\<lambda>fileId attempt. Response 503 []),
      Math_random = (\<lambda>fileId attempt. 1 / 2),
      JSON_parse = (\<lambda>text. Inr (Some text))\<rparr>"

text \<open>
  A signaling folder with two messages of other peers, listed newest first. With
  \<open>failing\<close> the download of the second message throws.
\<close>

definition exampleMessages :: "DriveFileMetadata list" where
  "exampleMessages =
     [fileMeta ''m2'' ''peerB_2000_idB.json'' 2000,
      fileMeta ''m1'' ''peerA_1000_idA.json'' 1000]"

definition signalEnv :: "DriveFileMetadata list \<Rightarrow> bool \<Rightarrow> signaling_env" where
  "signalEnv listing failing =
     \<lparr>sig_fetch_list = (\<lambda>params. Response 200 (Some listing)),
      readJsonFileContent = (\<lambda>fileId. if failing \<and> fileId = ''m2''
                                        then Inl (RxFetchError 500)
                                        else Inr (SignalData fileId))\<rparr>"


definition emptyBrowser :: browser where
  "emptyBrowser = \<lparr>window_listeners = [], document_listeners = []\<rparr>"

text \<open>A signaling file created two days before the time 200000000.\<close>

definition oldSignalFile :: drive_file where
  "oldSignalFile =
     \<lparr>df_id = ''m1'', df_name = ''peerA_1000_idA.json'', df_parent = ''signaling'',
      df_mimeType = ''application/json'', df_trashed = False,
      df_modifiedTime = 27200000, df_createdTime = 27200000, df_text = ''{}''\<rparr>"

text \<open>
  The push scenario of the test suite: documents are a passport id with an age, the
  primary key is the passport id.
\<close>

definition humanRow :: "string \<Rightarrow> nat \<Rightarrow> (string \<times> nat) RxReplicationWriteToMasterRow" where
  "humanRow passportId age =
     \<lparr>newDocumentState = (passportId, age), assumedMasterState = None\<rparr>"

definition emptyUpstream :: "(string \<times> nat) upstream_drive" where
  "emptyUpstream = \<lparr>docs = Map.empty, wal = None\<rparr>"

definition givenWith :: "bool \<Rightarrow> upstream_given" where
  "givenWith same = \<lparr>sameStateConflicts = same, missingMasterError = EnsureNotFalsy\<rparr>"

text \<open>The folder after the rows of \<open>doc-0\<close>, \<open>doc-1\<close>, \<open>doc-2\<close> with the age 1 were pushed and applied.\<close>

definition afterFirstPush :: "(string \<times> nat) upstream_drive" where
  "afterFirstPush =
     (case handleUpstreamBatch (givenWith False) fst emptyUpstream
             [humanRow ''doc-0'' 1, humanRow ''doc-1'' 1, humanRow ''doc-2'' 1] of
        Inl e \<Rightarrow> emptyUpstream
      | Inr pushed \<Rightarrow> processWalFile fst (snd pushed))"

definition secondPush :: "(string \<times> nat) RxReplicationWriteToMasterRow list" where
  "secondPush =
     [humanRow ''doc-0'' 2, humanRow ''doc-1'' 2, humanRow ''doc-2'' 2,
      humanRow ''no-conflict-0'' 5, humanRow ''no-conflict-1'' 5,
      humanRow ''no-conflict-2'' 5, humanRow ''no-conflict-3'' 5]"

text \<open>Options of a live replication with a pull handler, and of one that is not live.\<close>

definition liveOptions :: SyncOptionsGoogleDrive where
  "liveOptions =
     \<lparr>opt_live = None, opt_pull = Some \<lparr>pull_batchSize = Some 60\<rparr>,
      opt_push = Some \<lparr>push_batchSize = Some 60\<rparr>, opt_waitForLeadership = None\<rparr>"

definition onceOptions :: SyncOptionsGoogleDrive where
  "onceOptions = liveOptions\<lparr>opt_live := Some False\<rparr>"

section \<open>The workers of fetchDocumentContents keep their invariant\<close>



























section \<open>downstream: the claims\<close>

text \<open>
  C3: for every checkpoint and every listing that the request returns,
  \<open>fetchChangesFiles\<close> drops exactly the files whose modified time is the checkpoint's
  and whose name is in the checkpoint's list, cuts the rest to \<open>batchSize\<close>, and, when
  files are left, returns the checkpoint whose modified time is that of the last kept
  file and whose list is the names of the kept files with that modified time, followed
  by the old checkpoint's list when the first kept file has the old checkpoint's
  modified time.
\<close>

theorem fetchChangesFiles_new_checkpoint:
  assumes resp: "fetch_list env (changesParams init checkpoint batchSize) 0 = Response s (Some listing)"
    and s: "200 \<le> s" "s \<le> 299"
    and kept: "kept = take batchSize
                 (filter (\<lambda>file. case checkpoint of
                                   None \<Rightarrow> True
                                 | Some cp \<Rightarrow>
                                     \<not> (file_modifiedTime file = Some (modifiedTime cp)
                                        \<and> file_name file \<in> set (docIdsWithSameModifiedTime cp)))
                         listing)"
    and ne: "kept \<noteq> []"
    and t: "file_modifiedTime (last kept) = Some t"
  shows "fetchChangesFiles env init checkpoint batchSize =
           Inr \<lparr>ff_checkpoint =
                  Some \<lparr>modifiedTime = t,
                        docIdsWithSameModifiedTime =
                          map file_name (filter (\<lambda>file. file_modifiedTime file = Some t) kept)
                          @ (case checkpoint of
                               None \<Rightarrow> []
                             | Some cp \<Rightarrow> if file_modifiedTime (hd kept) = Some (modifiedTime cp)
                                          then docIdsWithSameModifiedTime cp else [])\<rparr>,
                ff_files = kept\<rparr>"
proof (cases checkpoint)
  case None
  with kept have k: "kept = take batchSize listing" by simp
  from ne obtain first rest where fr: "kept = first # rest" by (cases kept) auto
  show ?thesis
    using resp s None t fr k
    by (simp add: fetchChangesFiles_def ok_def Let_def)
next
  case (Some cp)
  have "notDelivered cp = (\<lambda>file. \<not> (file_modifiedTime file = Some (modifiedTime cp)
                            \<and> file_name file \<in> set (docIdsWithSameModifiedTime cp)))"
    by (rule ext) (simp add: notDelivered_def)
  with kept Some have k: "kept = take batchSize (filter (notDelivered cp) listing)"
    by simp
  from ne obtain first rest where fr: "kept = first # rest" by (cases kept) auto
  show ?thesis
    using resp s Some t fr k
    by (simp add: fetchChangesFiles_def ok_def Let_def)
qed

theorem fetchChangesFiles_new_checkpoint_witness:
  "fetch_list (drive_env exampleDrive) (changesParams exampleInit (Some exampleCheckpoint) 2) 0
     = Response 200 (Some [fileMeta ''f1'' ''doc-1.json'' 20, fileMeta ''f2'' ''doc-2.json'' 20,
                           fileMeta ''f3'' ''doc-3.json'' 30])
   \<and> (200::nat) \<le> 200 \<and> (200::nat) \<le> 299
   \<and> [fileMeta ''f2'' ''doc-2.json'' 20, fileMeta ''f3'' ''doc-3.json'' 30]
       = take 2 (filter (\<lambda>file. case Some exampleCheckpoint of
                                   None \<Rightarrow> True
                                 | Some cp \<Rightarrow>
                                     \<not> (file_modifiedTime file = Some (modifiedTime cp)
                                        \<and> file_name file \<in> set (docIdsWithSameModifiedTime cp)))
                   [fileMeta ''f1'' ''doc-1.json'' 20, fileMeta ''f2'' ''doc-2.json'' 20,
                    fileMeta ''f3'' ''doc-3.json'' 30])
   \<and> [fileMeta ''f2'' ''doc-2.json'' 20, fileMeta ''f3'' ''doc-3.json'' 30] \<noteq> []
   \<and> file_modifiedTime (last [fileMeta ''f2'' ''doc-2.json'' 20, fileMeta ''f3'' ''doc-3.json'' 30]) = Some 30
   \<and> fetchChangesFiles (drive_env exampleDrive) exampleInit (Some exampleCheckpoint) 2 =
       Inr \<lparr>ff_checkpoint =
              Some \<lparr>modifiedTime = 30,
                    docIdsWithSameModifiedTime = [''doc-3.json'', ''doc-1.json'']\<rparr>,
            ff_files = [fileMeta ''f2'' ''doc-2.json'' 20, fileMeta ''f3'' ''doc-3.json'' 30]\<rparr>"
proof -
  let ?listing = "[fileMeta ''f1'' ''doc-1.json'' 20, fileMeta ''f2'' ''doc-2.json'' 20,
                   fileMeta ''f3'' ''doc-3.json'' 30]"
  let ?kept = "[fileMeta ''f2'' ''doc-2.json'' 20, fileMeta ''f3'' ''doc-3.json'' 30]"
  have h1: "fetch_list (drive_env exampleDrive) (changesParams exampleInit (Some exampleCheckpoint) 2) 0
              = Response 200 (Some ?listing)"
    by code_simp
  have h2: "(200::nat) \<le> 200" and h3: "(200::nat) \<le> 299" by simp_all
  have h4: "?kept = take 2 (filter (\<lambda>file. case Some exampleCheckpoint of
                                   None \<Rightarrow> True
                                 | Some cp \<Rightarrow>
                                     \<not> (file_modifiedTime file = Some (modifiedTime cp)
                                        \<and> file_name file \<in> set (docIdsWithSameModifiedTime cp)))
                   ?listing)"
    by code_simp
  have h5: "?kept \<noteq> []" by simp
  have h6: "file_modifiedTime (last ?kept) = Some 30" by (simp add: fileMeta_def)
  have "fetchChangesFiles (drive_env exampleDrive) exampleInit (Some exampleCheckpoint) 2 =
       Inr \<lparr>ff_checkpoint =
              Some \<lparr>modifiedTime = 30,
                    docIdsWithSameModifiedTime = [''doc-3.json'', ''doc-1.json'']\<rparr>,
            ff_files = ?kept\<rparr>"
    using fetchChangesFiles_new_checkpoint [OF h1 h2 h3 h4 h5 h6]
    by (simp add: fileMeta_def exampleCheckpoint_def)
  with h1 h2 h3 h4 h5 h6 show ?thesis by blast
qed



section \<open>document-handling: the claims\<close>




section \<open>The retry policy: the claims\<close>

lemma jitter_bound:
  fixes r :: rat
  assumes "0 \<le> r" "r < 1"
  shows "nat \<lfloor>r * 200\<rfloor> \<le> 199"
proof -
  from assms have "r * 200 < 200" by simp
  then have "\<lfloor>r * 200\<rfloor> < 200" by (simp add: floor_less_iff)
  then have "\<lfloor>r * 200\<rfloor> \<le> int 199" by simp
  then show ?thesis by (simp only: nat_le_iff)
qed

lemma fetchOne_from:
  "attempt \<le> 4 \<Longrightarrow>
   (let sleeps = fst (fetchOne env fileId attempt);
        n = length sleeps;
        res = fetch_media env fileId (attempt + n)
    in attempt + n \<le> 4
       \<and> (\<forall>k<n. status (fetch_media env fileId (attempt + k)) \<in> set retry_statuses
                \<and> sleeps ! k = 250 * 2 ^ (attempt + k)
                               + nat \<lfloor>Math_random env fileId (attempt + k) * 200\<rfloor>)
       \<and> (attempt + n < 4 \<longrightarrow> status res \<notin> set retry_statuses)
       \<and> snd (fetchOne env fileId attempt) =
           (if \<not> ok res then Inl (RxFetchError (status res))
            else if payload res = [] then Inr None
            else (case JSON_parse env (payload res) of
                    Inl e \<Rightarrow> Inl e
                  | Inr doc \<Rightarrow> Inr doc)))"
proof (induction env fileId attempt rule: fetchOne.induct)
  case (1 env fileId attempt)
  show ?case
  proof (cases "status (fetch_media env fileId attempt) \<in> set retry_statuses \<and> attempt < 4")
    case True
    then have le: "attempt + 1 \<le> 4" by simp
    note ih = "1.IH" [OF refl True refl le]
    have eq: "fetchOne env fileId attempt =
                ((250 * 2 ^ attempt + nat \<lfloor>Math_random env fileId attempt * 200\<rfloor>)
                   # fst (fetchOne env fileId (attempt + 1)),
                 snd (fetchOne env fileId (attempt + 1)))"
      using True by (subst fetchOne.simps) (simp add: Let_def)
    show ?thesis
      using ih True
      by (auto simp: eq Let_def nth_Cons less_Suc_eq_0_disj split: nat.splits)
  next
    case False
    then have eq: "fetchOne env fileId attempt =
        ([], if \<not> ok (fetch_media env fileId attempt) then Inl (RxFetchError (status (fetch_media env fileId attempt)))
             else if payload (fetch_media env fileId attempt) = [] then Inr None
             else (case JSON_parse env (payload (fetch_media env fileId attempt)) of
                     Inl e \<Rightarrow> Inl e | Inr doc \<Rightarrow> Inr doc))"
      by (subst fetchOne.simps) (auto simp: Let_def split: sum.splits)
    from False "1.prems" show ?thesis
      by (auto simp: eq Let_def)
  qed
qed

text \<open>
  C7, as stated, for every operation and every 5xx status: a download that is answered
  501 throws at once, though the next request would have been answered 200, and the
  listing of \<open>fetchChangesFiles\<close> that is answered 429 throws at once, though the next
  request would have been answered 200.
\<close>

theorem retry_policy_counterexample:
  "fetch_media (flakyEnv 501) ''f'' 0 = Response 501 []
   \<and> fetch_media (flakyEnv 501) ''f'' 1 = Response 200 ''doc''
   \<and> fetchOne (flakyEnv 501) ''f'' 0 = ([], Inl (RxFetchError 501))
   \<and> fetch_list (flakyEnv 429) (changesParams exampleInit None 10) 0 = Response 429 None
   \<and> fetch_list (flakyEnv 429) (changesParams exampleInit None 10) 1 = Response 200 (Some [])
   \<and> fetchChangesFiles (flakyEnv 429) exampleInit None 10 = Inl (RxFetchError 429)"
  by code_simp

text \<open>
  C7, amended: the download of one file, \<open>fetchOne\<close>, retries while the status is
  429, 500, 502, 503 or 504 and fewer than 4 retries were made; before the retry
  after request \<open>k\<close> it sleeps \<open>250 * 2 ^ k\<close> ms plus a whole number of ms from 0 to
  199; it makes at most 5 requests, and what it returns or throws is decided by the
  last response alone, so that a status it does not retry, or the fifth failure,
  is thrown as the fetch error of that response.
\<close>

theorem fetchOne_retry_policy:
  assumes rnd: "\<forall>k. 0 \<le> Math_random env fileId k \<and> Math_random env fileId k < 1"
  shows "(let sleeps = fst (fetchOne env fileId 0);
              n = length sleeps;
              res = fetch_media env fileId n
          in n \<le> 4
             \<and> (\<forall>k<n. status (fetch_media env fileId k) \<in> {429, 500, 502, 503, 504}
                      \<and> 250 * 2 ^ k \<le> sleeps ! k \<and> sleeps ! k \<le> 250 * 2 ^ k + 199)
             \<and> (n < 4 \<longrightarrow> status res \<notin> {429, 500, 502, 503, 504})
             \<and> snd (fetchOne env fileId 0) =
                 (if \<not> ok res then Inl (RxFetchError (status res))
                  else if payload res = [] then Inr None
                  else (case JSON_parse env (payload res) of
                          Inl e \<Rightarrow> Inl e
                        | Inr doc \<Rightarrow> Inr doc)))"
proof -
  have z: "(0::nat) \<le> 4" by simp
  note f = fetchOne_from [OF z, of env fileId]
  have j: "\<And>k. nat \<lfloor>Math_random env fileId k * 200\<rfloor> \<le> 199"
    using rnd by (simp add: jitter_bound)
  have rs: "set retry_statuses = {429, 500, 502, 503, 504}"
    by (simp add: retry_statuses_def)
  show ?thesis
    using f j unfolding Let_def rs by simp
qed

theorem fetchOne_retry_policy_witness:
  "Math_random unavailableEnv ''f'' 0 = 1 / 2
   \<and> length (fst (fetchOne unavailableEnv ''f'' 0)) \<le> 4
   \<and> snd (fetchOne unavailableEnv ''f'' 0) = Inl (RxFetchError 503)"
proof -
  have r: "Math_random unavailableEnv ''f'' 0 = 1 / 2"
    by (simp add: unavailableEnv_def)
  have h: "\<forall>k. 0 \<le> Math_random unavailableEnv ''f'' k \<and> Math_random unavailableEnv ''f'' k < 1"
    by (simp add: unavailableEnv_def)
  note th = fetchOne_retry_policy [OF h, unfolded Let_def]
  from th have c1: "length (fst (fetchOne unavailableEnv ''f'' 0)) \<le> 4"
    by (rule conjunct1)
  from th have "snd (fetchOne unavailableEnv ''f'' 0) =
      (if \<not> ok (fetch_media unavailableEnv ''f'' (length (fst (fetchOne unavailableEnv ''f'' 0))))
       then Inl (RxFetchError (status (fetch_media unavailableEnv ''f''
                                         (length (fst (fetchOne unavailableEnv ''f'' 0))))))
       else if payload (fetch_media unavailableEnv ''f''
                          (length (fst (fetchOne unavailableEnv ''f'' 0)))) = [] then Inr None
       else (case JSON_parse unavailableEnv
                    (payload (fetch_media unavailableEnv ''f''
                                (length (fst (fetchOne unavailableEnv ''f'' 0))))) of
               Inl e \<Rightarrow> Inl e
             | Inr doc \<Rightarrow> Inr doc))"
    by (rule conjunct2 [THEN conjunct2, THEN conjunct2])
  moreover have "\<And>k. fetch_media unavailableEnv ''f'' k = Response 503 []"
    by (simp add: unavailableEnv_def)
  ultimately have c2: "snd (fetchOne unavailableEnv ''f'' 0) = Inl (RxFetchError 503)"
    by (simp add: ok_def)
  from r c1 c2 show ?thesis by (intro conjI)
qed

section \<open>signaling: the claims\<close>

lemma filterUnseen_ids:
  "filterUnseen processed fs = Inr useFiles \<Longrightarrow>
   \<forall>f \<in> set useFiles. \<exists>m. messageIdByFilename (file_name f) = Inr m"
proof (induction fs arbitrary: useFiles)
  case Nil
  then show ?case by simp
next
  case (Cons f fs)
  from Cons.prems obtain m rest where
    m: "messageIdByFilename (file_name f) = Inr m"
    and rest: "filterUnseen processed fs = Inr rest"
    and use: "useFiles = (if m \<notin> processed then f # rest else rest)"
    by (auto split: sum.splits)
  from Cons.IH [OF rest] m use show ?case by auto
qed

lemma markProcessed_ok:
  "\<forall>f \<in> set useFiles. \<exists>m. messageIdByFilename (file_name f) = Inr m \<Longrightarrow>
   markProcessed useFiles processed =
     (None, processed \<union> {m. \<exists>f \<in> set useFiles. messageIdByFilename (file_name f) = Inr m})"
proof (induction useFiles arbitrary: processed)
  case Nil
  then show ?case by simp
next
  case (Cons f fs)
  from Cons.prems obtain m where m: "messageIdByFilename (file_name f) = Inr m" by auto
  from Cons.prems have "\<forall>f \<in> set fs. \<exists>m. messageIdByFilename (file_name f) = Inr m" by simp
  from Cons.IH [OF this, of "insert m processed"] m show ?case by auto
qed

lemma promise_all_rejects:
  "\<exists>p \<in> set ps. isl p \<Longrightarrow> \<exists>e. promise_all ps = Inl e"
proof (induction ps)
  case Nil
  then show ?case by simp
next
  case (Cons p ps)
  show ?case
  proof (cases p)
    case (Inl e)
    then show ?thesis by simp
  next
    case (Inr v)
    with Cons.prems have "\<exists>p \<in> set ps. isl p" by auto
    from Cons.IH [OF this] Inr show ?thesis by auto
  qed
qed

lemma promise_all_resolves:
  "\<forall>p \<in> set ps. \<not> isl p \<Longrightarrow> promise_all ps = Inr (map projr ps)"
proof (induction ps)
  case Nil
  then show ?case by simp
next
  case (Cons p ps)
  then show ?case by (cases p) auto
qed

lemma isl_readMessageFile:
  "isl (readMessageFile env f) \<longleftrightarrow> isl (readJsonFileContent env (file_id f))"
  by (simp add: readMessageFile_def split: sum.splits)

lemma readMessages_error_unchanged:
  assumes "readMessages env init processed = (Inl e, ids)"
  shows "ids = processed"
proof (cases "ok (sig_fetch_list env (signalingParams init))")
  case False
  with assms show ?thesis by (simp add: readMessages_def Let_def)
next
  case True
  let ?folder = "rev (case payload (sig_fetch_list env (signalingParams init)) of
                        None \<Rightarrow> [] | Some fs \<Rightarrow> fs)"
  show ?thesis
  proof (cases "filterUnseen processed ?folder")
    case (Inl e')
    with assms True show ?thesis by (simp add: readMessages_def Let_def)
  next
    case (Inr useFiles)
    from markProcessed_ok [OF filterUnseen_ids [OF Inr], of processed]
    have "fst (markProcessed useFiles processed) = None" by simp
    with assms True Inr show ?thesis
      by (auto simp: readMessages_def Let_def split: sum.splits prod.splits option.splits)
  qed
qed

text \<open>
  C10: \<open>readMessages\<close> adds message ids to \<open>processedMessageIds\<close> only after the
  content of every unseen message of the batch has been downloaded. Whenever it throws,
  the set is as it was before the call; when the download of an unseen message throws,
  it throws; and when no download throws it returns one message for each unseen file,
  in their order, and adds exactly their message ids. So a retry with the same set
  selects the same unseen files again, and none is skipped.
\<close>

theorem readMessages_marks_after_all_downloads:
  "(\<forall>e ids. readMessages env init processed = (Inl e, ids) \<longrightarrow> ids = processed)
   \<and> (\<forall>useFiles.
         ok (sig_fetch_list env (signalingParams init))
         \<and> filterUnseen processed
              (rev (case payload (sig_fetch_list env (signalingParams init)) of
                      None \<Rightarrow> [] | Some fs \<Rightarrow> fs)) = Inr useFiles
         \<longrightarrow> ((\<exists>f \<in> set useFiles. isl (readJsonFileContent env (file_id f)))
                \<longrightarrow> (\<exists>e. readMessages env init processed = (Inl e, processed)))
             \<and> ((\<forall>f \<in> set useFiles. \<not> isl (readJsonFileContent env (file_id f)))
                \<longrightarrow> readMessages env init processed =
                      (Inr (map (\<lambda>f. projr (readMessageFile env f)) useFiles),
                       processed \<union> {m. \<exists>f \<in> set useFiles.
                                          messageIdByFilename (file_name f) = Inr m})))"
proof (intro conjI allI impI)
  fix e ids assume "readMessages env init processed = (Inl e, ids)"
  then show "ids = processed" by (rule readMessages_error_unchanged)
next
  fix useFiles
  assume a: "ok (sig_fetch_list env (signalingParams init))
         \<and> filterUnseen processed
              (rev (case payload (sig_fetch_list env (signalingParams init)) of
                      None \<Rightarrow> [] | Some fs \<Rightarrow> fs)) = Inr useFiles"
  assume "\<exists>f \<in> set useFiles. isl (readJsonFileContent env (file_id f))"
  then have "\<exists>p \<in> set (map (readMessageFile env) useFiles). isl p"
    by (simp add: isl_readMessageFile)
  then obtain e where "promise_all (map (readMessageFile env) useFiles) = Inl e"
    using promise_all_rejects by blast
  with a have "readMessages env init processed = (Inl e, processed)"
    by (simp add: readMessages_def Let_def)
  then show "\<exists>e. readMessages env init processed = (Inl e, processed)" by blast
next
  fix useFiles
  assume a: "ok (sig_fetch_list env (signalingParams init))
         \<and> filterUnseen processed
              (rev (case payload (sig_fetch_list env (signalingParams init)) of
                      None \<Rightarrow> [] | Some fs \<Rightarrow> fs)) = Inr useFiles"
  assume "\<forall>f \<in> set useFiles. \<not> isl (readJsonFileContent env (file_id f))"
  then have "\<forall>p \<in> set (map (readMessageFile env) useFiles). \<not> isl p"
    by (simp add: isl_readMessageFile)
  then have pa: "promise_all (map (readMessageFile env) useFiles)
                   = Inr (map projr (map (readMessageFile env) useFiles))"
    by (rule promise_all_resolves)
  from a have "filterUnseen processed
              (rev (case payload (sig_fetch_list env (signalingParams init)) of
                      None \<Rightarrow> [] | Some fs \<Rightarrow> fs)) = Inr useFiles" by simp
  from markProcessed_ok [OF filterUnseen_ids [OF this], of processed]
  have mp: "markProcessed useFiles processed =
     (None, processed \<union> {m. \<exists>f \<in> set useFiles. messageIdByFilename (file_name f) = Inr m})" .
  from a pa mp
  show "readMessages env init processed =
          (Inr (map (\<lambda>f. projr (readMessageFile env f)) useFiles),
           processed \<union> {m. \<exists>f \<in> set useFiles. messageIdByFilename (file_name f) = Inr m})"
    by (simp add: readMessages_def Let_def comp_def)
qed

theorem readMessages_marks_after_all_downloads_witness:
  "ok (sig_fetch_list (signalEnv exampleMessages True) (signalingParams exampleInit))
   \<and> filterUnseen {''id0''}
        (rev (case payload (sig_fetch_list (signalEnv exampleMessages True) (signalingParams exampleInit)) of
                None \<Rightarrow> [] | Some fs \<Rightarrow> fs)) = Inr (rev exampleMessages)
   \<and> isl (readJsonFileContent (signalEnv exampleMessages True)
            (file_id (fileMeta ''m2'' ''peerB_2000_idB.json'' 2000)))
   \<and> isl (fst (readMessages (signalEnv exampleMessages True) exampleInit {''id0''}))
   \<and> snd (readMessages (signalEnv exampleMessages True) exampleInit {''id0''}) = {''id0''}"
proof -
  let ?env = "signalEnv exampleMessages True"
  have h1: "ok (sig_fetch_list ?env (signalingParams exampleInit))"
    by (simp add: signalEnv_def ok_def)
  have h2: "filterUnseen {''id0''}
        (rev (case payload (sig_fetch_list ?env (signalingParams exampleInit)) of
                None \<Rightarrow> [] | Some fs \<Rightarrow> fs)) = Inr (rev exampleMessages)"
    by code_simp
  have h3: "isl (readJsonFileContent ?env (file_id (fileMeta ''m2'' ''peerB_2000_idB.json'' 2000)))"
    by (simp add: signalEnv_def fileMeta_def)
  then have h3': "\<exists>f \<in> set (rev exampleMessages). isl (readJsonFileContent ?env (file_id f))"
    by (simp add: exampleMessages_def)
  note th = readMessages_marks_after_all_downloads [of ?env exampleInit "{''id0''}",
      THEN conjunct2, THEN spec, of "rev exampleMessages", THEN mp, THEN conjunct1, THEN mp]
  have "\<exists>e. readMessages ?env exampleInit {''id0''} = (Inl e, {''id0''})"
    by (rule th) (intro conjI h1 h2, rule h3')
  then obtain e where "readMessages ?env exampleInit {''id0''} = (Inl e, {''id0''})" ..
  then have c: "isl (fst (readMessages ?env exampleInit {''id0''}))
                \<and> snd (readMessages ?env exampleInit {''id0''}) = {''id0''}"
    by simp
  from h1 h2 h3 c show ?thesis by (intro conjI) simp_all
qed

lemma backoffStepId_pingPeers [simp]: "backoffStepId (pingPeers st m) = backoffStepId st"
  by (simp add: pingPeers_def)

lemma closed_pingPeers [simp]: "closed (pingPeers st m) = closed st"
  by (simp add: pingPeers_def)

lemma backoffStepId_handleMessage [simp]:
  "backoffStepId (handleMessage st m) = backoffStepId st"
  by (simp add: handleMessage_def Let_def split: option.splits)

lemma closed_handleMessage [simp]: "closed (handleMessage st m) = closed st"
  by (simp add: handleMessage_def Let_def split: option.splits)

lemma backoffStepId_foldl_handleMessage [simp]:
  "backoffStepId (foldl handleMessage st ms) = backoffStepId st"
  by (induction ms arbitrary: st) simp_all

lemma closed_foldl_handleMessage [simp]:
  "closed (foldl handleMessage st ms) = closed st"
  by (induction ms arbitrary: st) simp_all

lemma backoffStepId_processNewMessages [simp]:
  "backoffStepId (processNewMessages env init st) = backoffStepId st"
  by (simp add: processNewMessages_def private_processNewMessages_def Let_def
           split: prod.splits sum.splits)

lemma closed_processNewMessages [simp]:
  "closed (processNewMessages env init st) = closed st"
  by (simp add: processNewMessages_def private_processNewMessages_def Let_def
           split: prod.splits sum.splits)







text \<open>
  C6, on the code: in a browser with no other listeners the constructor registers
  \<^verbatim>\<open>online\<close> on \<^verbatim>\<open>window\<close> and \<^verbatim>\<open>visibilitychange\<close> on \<^verbatim>\<open>document\<close>; after
  \<open>close\<close> the listener on \<^verbatim>\<open>document\<close> is still registered, since \<open>close\<close>
  removes \<^verbatim>\<open>visibilitychange\<close> from \<^verbatim>\<open>window\<close>.
\<close>

theorem close_leaves_document_listener:
  "snd (new_SignalingState session messageId nowString (Some emptyBrowser))
     = Some \<lparr>window_listeners = [(''online'', session)],
             document_listeners = [(''visibilitychange'', session)]\<rparr>
   \<and> snd (close (fst (new_SignalingState session messageId nowString (Some emptyBrowser)))
                (snd (new_SignalingState session messageId nowString (Some emptyBrowser))))
     = Some \<lparr>window_listeners = [],
             document_listeners = [(''visibilitychange'', session)]\<rparr>"
  by (simp add: new_SignalingState_def close_def sendMessage_def emptyBrowser_def
        addEventListener_def removeEventListener_def Let_def)

text \<open>
  C5, on the code: for a folder that holds one signaling file created more than
  \<open>maxAgeMs\<close> before now, \<open>cleanupOldSignalingMessages\<close> returns 2 and leaves the
  file; the claim asks for the file to be deleted and for the result 1.
\<close>

theorem cleanupOldSignalingMessages_returns_2:
  "df_createdTime oldSignalFile + DEFAULT_MAX_AGE_MS < 200000000
   \<and> cleanupOldSignalingMessages [oldSignalFile] ''signaling'' DEFAULT_MAX_AGE_MS 200000000
       = (2, [oldSignalFile])"
  by (simp add: cleanupOldSignalingMessages_def oldSignalFile_def DEFAULT_MAX_AGE_MS_def)

section \<open>index: the claims\<close>

text \<open>
  C8: \<open>replicateGoogleDrive\<close> installs the signaling in \<open>start\<close> if and only if the
  replication is live (the option is not \<^verbatim>\<open>false\<close>) and a pull option is given. Then
  \<open>start\<close> creates the signaling state, subscribes to its \<^verbatim>\<open>resync$\<close>, so that an
  emission calls \<^verbatim>\<open>reSync\<close>, and calls the original \<open>start\<close>; \<open>cancel\<close> after it
  ends that subscription, closes the signaling state and then calls the original
  \<open>cancel\<close>. Otherwise \<open>start\<close> and \<open>cancel\<close> are the original ones and no
  signaling state exists.
\<close>

theorem replicateGoogleDrive_signaling_lifecycle:
  "(let rs = replicateGoogleDrive options;
        created = new_SignalingState session messageId nowString win;
        started = start session messageId nowString (rs, win);
        cancelled = cancel started
    in (start_field rs = StartWithSignaling
          \<longleftrightarrow> opt_live options \<noteq> Some False \<and> opt_pull options \<noteq> None)
       \<and> signalingState rs = None
       \<and> (start_field rs = StartWithSignaling \<longrightarrow>
             signalingState (fst started) = Some (fst created)
             \<and> snd started = snd created
             \<and> subscriptions (fst started) = [0]
             \<and> calls (fst started) = [Call_new_SignalingState, Call_subscribe 0, Call_startBefore]
             \<and> calls (emitResync (fst started)) = calls (fst started) @ [Call_reSync]
             \<and> calls (fst cancelled)
                 = calls (fst started) @ [Call_unsubscribe 0, Call_close, Call_cancelBefore]
             \<and> subscriptions (fst cancelled) = []
             \<and> calls (emitResync (fst cancelled)) = calls (fst cancelled)
             \<and> signalingState (fst cancelled) = Some (fst (close (fst created) (snd created)))
             \<and> snd cancelled = snd (close (fst created) (snd created))
             \<and> closed (fst (close (fst created) (snd created))))
       \<and> (start_field rs \<noteq> StartWithSignaling \<longrightarrow>
             signalingState (fst started) = None
             \<and> snd started = win
             \<and> calls (fst started) = [Call_startBefore]
             \<and> signalingState (fst cancelled) = None
             \<and> calls (fst cancelled) = [Call_startBefore, Call_cancelBefore]))"
  by (cases "opt_live options")
     (auto simp: replicateGoogleDrive_def start_def cancel_def emitResync_def close_def Let_def)

theorem replicateGoogleDrive_signaling_lifecycle_witness:
  "start_field (replicateGoogleDrive liveOptions) = StartWithSignaling
   \<and> calls (fst (cancel (start ''me'' ''id0'' ''0'' (replicateGoogleDrive liveOptions, Some emptyBrowser))))
       = [Call_new_SignalingState, Call_subscribe 0, Call_startBefore,
          Call_unsubscribe 0, Call_close, Call_cancelBefore]
   \<and> start_field (replicateGoogleDrive onceOptions) \<noteq> StartWithSignaling
   \<and> calls (fst (cancel (start ''me'' ''id0'' ''0'' (replicateGoogleDrive onceOptions, Some emptyBrowser))))
       = [Call_startBefore, Call_cancelBefore]"
proof -
  have h1: "start_field (replicateGoogleDrive liveOptions) = StartWithSignaling"
    by (simp add: replicateGoogleDrive_def liveOptions_def)
  have h2: "start_field (replicateGoogleDrive onceOptions) \<noteq> StartWithSignaling"
    by (simp add: replicateGoogleDrive_def liveOptions_def onceOptions_def)
  note live = replicateGoogleDrive_signaling_lifecycle
      [of liveOptions "''me''" "''id0''" "''0''" "Some emptyBrowser", unfolded Let_def,
       THEN conjunct2, THEN conjunct2, THEN conjunct1, THEN mp, OF h1]
  note once = replicateGoogleDrive_signaling_lifecycle
      [of onceOptions "''me''" "''id0''" "''0''" "Some emptyBrowser", unfolded Let_def,
       THEN conjunct2, THEN conjunct2, THEN conjunct2, THEN mp, OF h2]
  from live have c1: "calls (fst (cancel (start ''me'' ''id0'' ''0'' (replicateGoogleDrive liveOptions, Some emptyBrowser))))
       = [Call_new_SignalingState, Call_subscribe 0, Call_startBefore,
          Call_unsubscribe 0, Call_close, Call_cancelBefore]"
    by simp
  from once have c2: "calls (fst (cancel (start ''me'' ''id0'' ''0'' (replicateGoogleDrive onceOptions, Some emptyBrowser))))
       = [Call_startBefore, Call_cancelBefore]"
    by simp
  from h1 c1 h2 c2 show ?thesis by (intro conjI)
qed

section \<open>upstream: the claims\<close>

lemma fetchConflicts_stored:
  "fetchConflicts given primaryPath stored rows = Inr found \<Longrightarrow>
   \<forall>c \<in> set (fst found). \<exists>row \<in> set rows. stored (primaryPath (newDocumentState row)) = Some c"
proof (induction rows arbitrary: found)
  case Nil
  then show ?case by auto
next
  case (Cons row rows)
  from Cons.prems obtain d rest where
    d: "detectConflict given primaryPath stored row = Inr d"
    and rest: "fetchConflicts given primaryPath stored rows = Inr rest"
    and found: "found = (case d of None \<Rightarrow> (fst rest, row # snd rest)
                              | Some m \<Rightarrow> (m # fst rest, snd rest))"
    by (auto split: sum.splits option.splits)
  have ih: "\<forall>c \<in> set (fst rest). \<exists>r \<in> set rows. stored (primaryPath (newDocumentState r)) = Some c"
    by (rule Cons.IH [OF rest])
  show ?case
  proof (cases d)
    case None
    with found ih show ?thesis by auto
  next
    case (Some m)
    with d have "stored (primaryPath (newDocumentState row)) = Some m"
      by (auto simp: detectConflict_def split: option.splits if_splits)
    with Some found ih show ?thesis by auto
  qed
qed

lemma detectConflict_pureInsert:
  "pureInsert primaryPath stored row \<Longrightarrow> detectConflict given primaryPath stored row = Inr None"
  by (simp add: pureInsert_def detectConflict_def)

lemma fetchConflicts_without_pureInserts:
  "fetchConflicts given primaryPath stored rows = Inr found \<Longrightarrow>
   fetchConflicts given primaryPath stored
       (filter (\<lambda>row. \<not> pureInsert primaryPath stored row) rows)
     = Inr (fst found, filter (\<lambda>row. \<not> pureInsert primaryPath stored row) (snd found))"
proof (induction rows arbitrary: found)
  case Nil
  then show ?case by auto
next
  case (Cons row rows)
  from Cons.prems obtain d rest where
    d: "detectConflict given primaryPath stored row = Inr d"
    and rest: "fetchConflicts given primaryPath stored rows = Inr rest"
    and found: "found = (case d of None \<Rightarrow> (fst rest, row # snd rest)
                              | Some m \<Rightarrow> (m # fst rest, snd rest))"
    by (auto split: sum.splits option.splits)
  note ih = Cons.IH [OF rest]
  show ?case
  proof (cases "pureInsert primaryPath stored row")
    case True
    with d have "d = None" by (simp add: detectConflict_pureInsert)
    with True found ih show ?thesis by simp
  next
    case False
    with d found ih show ?thesis by (cases d) simp_all
  qed
qed

text \<open>
  C1, as stated: in the push scenario of the test suite, the rows for \<open>doc-0\<close>,
  \<open>doc-1\<close> and \<open>doc-2\<close> carry no \<^verbatim>\<open>assumedMasterState\<close>, documents with their keys
  and another age are stored, and the returned conflict list holds the three stored
  documents, whatever is given for the cases that the spec and the tests leave open.
\<close>

theorem insert_rows_conflict_counterexample:
  "assumedMasterState (humanRow ''doc-0'' 2) = None
   \<and> assumedMasterState (humanRow ''doc-1'' 2) = None
   \<and> assumedMasterState (humanRow ''doc-2'' 2) = None
   \<and> docs afterFirstPush ''doc-0'' = Some (''doc-0'', 1)
   \<and> docs afterFirstPush ''doc-1'' = Some (''doc-1'', 1)
   \<and> docs afterFirstPush ''doc-2'' = Some (''doc-2'', 1)
   \<and> map_sum id fst (handleUpstreamBatch (givenWith False) fst afterFirstPush secondPush)
       = Inr [(''doc-0'', 1), (''doc-1'', 1), (''doc-2'', 1)]
   \<and> map_sum id fst (handleUpstreamBatch (givenWith True) fst afterFirstPush secondPush)
       = Inr [(''doc-0'', 1), (''doc-1'', 1), (''doc-2'', 1)]"
  by (simp add: afterFirstPush_def secondPush_def handleUpstreamBatch_def processWalFile_def
        writeToWal_def emptyUpstream_def humanRow_def detectConflict_def givenWith_def)

text \<open>
  C1, amended: a row that carries no \<^verbatim>\<open>assumedMasterState\<close> adds nothing to the
  conflict list that \<open>handleUpstreamBatch\<close> returns when no document with its primary
  key is stored under \<^verbatim>\<open>docs/\<close>: it is found to be no conflict, every returned
  conflict is the stored document of a row of the batch whose document exists, and the
  batch without its pure inserts has the same conflict list.
\<close>

theorem handleUpstreamBatch_pure_inserts:
  assumes "map_sum id fst (handleUpstreamBatch given primaryPath drive rows) = Inr conflicts"
  shows "(\<forall>row \<in> set rows.
            assumedMasterState row = None \<and> docs drive (primaryPath (newDocumentState row)) = None
            \<longrightarrow> detectConflict given primaryPath (docs drive) row = Inr None)
         \<and> (\<forall>c \<in> set conflicts.
               \<exists>row \<in> set rows. docs drive (primaryPath (newDocumentState row)) = Some c)
         \<and> map_sum id fst
             (handleUpstreamBatch given primaryPath drive
                (filter (\<lambda>row. \<not> (assumedMasterState row = None
                                   \<and> docs drive (primaryPath (newDocumentState row)) = None))
                        rows))
             = Inr conflicts"
proof -
  from assms obtain found staged where
    fc: "fetchConflicts given primaryPath (docs drive) rows = Inr found"
    and w: "writeToWal drive (snd found) = Inr staged"
    and c: "conflicts = fst found"
    by (auto simp: handleUpstreamBatch_def split: sum.splits)
  from w have empty: "wal drive = None"
    by (simp add: writeToWal_def split: option.splits)
  have p: "(\<lambda>row. \<not> (assumedMasterState row = None
                       \<and> docs drive (primaryPath (newDocumentState row)) = None))
           = (\<lambda>row. \<not> pureInsert primaryPath (docs drive) row)"
    by (rule ext) (simp add: pureInsert_def)
  have one: "\<forall>row \<in> set rows.
            assumedMasterState row = None \<and> docs drive (primaryPath (newDocumentState row)) = None
            \<longrightarrow> detectConflict given primaryPath (docs drive) row = Inr None"
    by (simp add: detectConflict_def)
  have two: "\<forall>c \<in> set conflicts.
               \<exists>row \<in> set rows. docs drive (primaryPath (newDocumentState row)) = Some c"
    using fetchConflicts_stored [OF fc] c by simp
  have three: "map_sum id fst
             (handleUpstreamBatch given primaryPath drive
                (filter (\<lambda>row. \<not> (assumedMasterState row = None
                                   \<and> docs drive (primaryPath (newDocumentState row)) = None))
                        rows))
             = Inr conflicts"
    unfolding p
    using fetchConflicts_without_pureInserts [OF fc] c empty
    by (simp add: handleUpstreamBatch_def writeToWal_def)
  from one two three show ?thesis by (intro conjI)
qed

theorem handleUpstreamBatch_pure_inserts_witness:
  "map_sum id fst (handleUpstreamBatch (givenWith False) fst afterFirstPush secondPush)
       = Inr [(''doc-0'', 1), (''doc-1'', 1), (''doc-2'', 1)]
   \<and> humanRow ''no-conflict-0'' 5 \<in> set secondPush
   \<and> assumedMasterState (humanRow ''no-conflict-0'' 5) = None
   \<and> docs afterFirstPush (fst (newDocumentState (humanRow ''no-conflict-0'' 5))) = None
   \<and> detectConflict (givenWith False) fst (docs afterFirstPush) (humanRow ''no-conflict-0'' 5)
       = Inr None"
proof -
  have h1: "map_sum id fst (handleUpstreamBatch (givenWith False) fst afterFirstPush secondPush)
       = Inr [(''doc-0'', 1), (''doc-1'', 1), (''doc-2'', 1)]"
    by (simp add: afterFirstPush_def secondPush_def handleUpstreamBatch_def processWalFile_def
        writeToWal_def emptyUpstream_def humanRow_def detectConflict_def givenWith_def)
  have m: "humanRow ''no-conflict-0'' 5 \<in> set secondPush"
    by (simp add: secondPush_def)
  have a: "assumedMasterState (humanRow ''no-conflict-0'' 5) = None"
    by (simp add: humanRow_def)
  have d: "docs afterFirstPush (fst (newDocumentState (humanRow ''no-conflict-0'' 5))) = None"
    by (simp add: afterFirstPush_def handleUpstreamBatch_def processWalFile_def
        writeToWal_def emptyUpstream_def humanRow_def detectConflict_def givenWith_def)
  note th = handleUpstreamBatch_pure_inserts [OF h1, THEN conjunct1, THEN bspec, OF m, THEN mp]
  have c: "detectConflict (givenWith False) fst (docs afterFirstPush) (humanRow ''no-conflict-0'' 5)
       = Inr None"
    by (rule th) (intro conjI a d)
  from h1 m a d c show ?thesis by (intro conjI)
qed


end
